theory Spec2Isabelle
  imports Main
begin

section \<open>Strings and numbers of the runtime\<close>

text \<open>
  A JavaScript string is modelled as a \<open>string\<close> whose characters are read as the code
  points U+0000 to U+00FF. White space of \<open>trim\<close>, of the regular expression \<open>\s\<close> and of
  \<open>parseInt\<close> is, in that range: TAB, LF, VT, FF, CR, SPACE and NBSP.
\<close>

definition is_space :: "char \<Rightarrow> bool" where
  "is_space c = ((of_char c :: nat) \<in> {9, 10, 11, 12, 13, 32, 160})"

text \<open>\<open>String.prototype.trim\<close>: white space is removed at both ends.\<close>

definition trim :: "string \<Rightarrow> string" where
  "trim s = rev (dropWhile is_space (rev (dropWhile is_space s)))"

text \<open>\<open>String.prototype.startsWith\<close>.\<close>

definition startsWith :: "string \<Rightarrow> string \<Rightarrow> bool" where
  "startsWith s p = (take (length p) s = p)"

text \<open>
  \<open>s.split(/\s+/)\<close>: the pieces between maximal runs of white space; a string that begins
  or ends with white space gives an empty first or last piece, and the empty string gives
  one empty piece. The flag says that the character before was white space, \<open>cur\<close> is the
  piece being read, reversed.
\<close>

primrec split_from :: "bool \<Rightarrow> string \<Rightarrow> string \<Rightarrow> string list" where
  "split_from insep cur [] = [rev cur]"
| "split_from insep cur (c # cs) =
     (if is_space c
      then (if insep then split_from True cur cs else rev cur # split_from True [] cs)
      else split_from False (c # cur) cs)"

definition split_ws :: "string \<Rightarrow> string list" where
  "split_ws s = split_from False [] s"

text \<open>\<open>Array.prototype.join\<close> with a separator.\<close>

fun join :: "string \<Rightarrow> string list \<Rightarrow> string" where
  "join sep [] = []"
| "join sep [x] = x"
| "join sep (x # y # ys) = x @ sep @ join sep (y # ys)"

text \<open>
  A JavaScript number, as far as this program meets one: not-a-number, or an integer that
  a double holds. There is no \<open>Infinity\<close> here: where the runtime computes it (an integer
  beyond the largest double) the model keeps an integer, and what the schema, the terminal
  and the request make of \<open>Infinity\<close> is not modelled.
\<close>

datatype number = NaN | Num int

text \<open>
  The double nearest to an integer that is not negative, ties to the even significand
  (53 bits): the value that the runtime holds for the integer.
\<close>

function bit_length :: "int \<Rightarrow> nat" where
  "bit_length n = (if n \<le> 0 then 0 else Suc (bit_length (n div 2)))"
  by pat_completeness auto
termination
  by (relation "measure nat") auto

declare bit_length.simps [simp del]

definition to_double :: "int \<Rightarrow> int" where
  "to_double n =
     (if n < 2 ^ 53 then n
      else let e = bit_length n - 53;
               q = n div 2 ^ e;
               r = n mod 2 ^ e;
               h = 2 ^ (e - 1)
           in (if h < r \<or> (r = h \<and> odd q) then q + 1 else q) * 2 ^ e)"

text \<open>\<open>Number.prototype.toString\<close> of a natural number: its decimal digits.\<close>

fun toString :: "nat \<Rightarrow> string" where
  "toString n =
     (if n < 10 then [char_of (48 + n)]
      else toString (n div 10) @ [char_of (48 + n mod 10)])"

declare toString.simps [simp del]

text \<open>Truthiness of a number (\<open>if (n)\<close>): false for \<open>NaN\<close> and for zero.\<close>

fun truthy_number :: "number \<Rightarrow> bool" where
  "truthy_number NaN = False"
| "truthy_number (Num i) = (i \<noteq> 0)"

text \<open>The value of a digit in a radix, if the character is one.\<close>

definition digit_value :: "nat \<Rightarrow> char \<Rightarrow> nat option" where
  "digit_value R c =
     (let n = (of_char c :: nat);
          v = (if 48 \<le> n \<and> n \<le> 57 then Some (n - 48)
               else if 97 \<le> n \<and> n \<le> 122 then Some (n - 87)
               else if 65 \<le> n \<and> n \<le> 90 then Some (n - 55)
               else None)
      in case v of None \<Rightarrow> None | Some d \<Rightarrow> if d < R then Some d else None)"

definition digits_value :: "nat \<Rightarrow> string \<Rightarrow> int" where
  "digits_value R Z =
     foldl (\<lambda>a c. a * int R + int (case digit_value R c of Some d \<Rightarrow> d | None \<Rightarrow> 0)) 0 Z"

text \<open>
  \<open>parseInt(string)\<close> with no radix (ECMAScript, 19.2.5): leading white space is skipped,
  a sign is read, a prefix \<open>0x\<close> or \<open>0X\<close> selects radix 16 (radix 10 otherwise), the
  longest run of digits is read and what follows it is ignored; no digit at all gives
  \<open>NaN\<close>; the result is the integer read, as a double. This is how both \<open>loadConfig\<close> and
  the option \<open>--tokens\<close> (given once) call it.
\<close>

definition parseInt :: "string \<Rightarrow> number" where
  "parseInt inputString =
     (let S = dropWhile is_space inputString;
          sign = (if take 1 S = ''-'' then - 1 else (1::int));
          S1 = (if take 1 S = ''+'' \<or> take 1 S = ''-'' then drop 1 S else S);
          hex = (take 2 S1 = ''0x'' \<or> take 2 S1 = ''0X'');
          R = (if hex then 16 else 10);
          S2 = (if hex then drop 2 S1 else S1);
          Z = takeWhile (\<lambda>c. digit_value R c \<noteq> None) S2
      in if Z = [] then NaN else Num (sign * to_double (digits_value R Z)))"

section \<open>types/index.ts\<close>

text \<open>The identifiers of \<open>z.enum\<close> in \<open>ConfigSchema\<close>, exported as \<open>ALLOWED_MODELS\<close>.\<close>

definition ALLOWED_MODELS :: "string list" where
  "ALLOWED_MODELS =
     [''claude-opus-4-1-20250805'', ''claude-opus-4-20250514'', ''claude-3-7-sonnet-latest'']"

record Config =
  apiKey :: string
  model :: string
  maxTokens :: int

text \<open>What a failed \<open>ConfigSchema.parse\<close> reports, one issue per field that fails.\<close>

datatype issue =
    ApiKey_required
  | ApiKey_too_small
  | Model_invalid_enum_value string
  | MaxTokens_not_a_number
  | MaxTokens_not_positive int

text \<open>\<open>apiKey: z.string().min(1, "API key is required")\<close>.\<close>

fun parse_apiKey :: "string option \<Rightarrow> issue + string" where
  "parse_apiKey None = Inl ApiKey_required"
| "parse_apiKey (Some k) = (if 1 \<le> length k then Inr k else Inl ApiKey_too_small)"

text \<open>\<open>model: z.enum([...]).default('claude-opus-4-20250514')\<close>.\<close>

fun parse_model :: "string option \<Rightarrow> issue + string" where
  "parse_model None = Inr ''claude-opus-4-20250514''"
| "parse_model (Some m) =
     (if m \<in> set ALLOWED_MODELS then Inr m else Inl (Model_invalid_enum_value m))"

text \<open>\<open>maxTokens: z.number().positive().default(1000)\<close>; \<open>z.number()\<close> refuses \<open>NaN\<close>.\<close>

fun parse_maxTokens :: "number option \<Rightarrow> issue + int" where
  "parse_maxTokens None = Inr 1000"
| "parse_maxTokens (Some NaN) = Inl MaxTokens_not_a_number"
| "parse_maxTokens (Some (Num i)) = (if 0 < i then Inr i else Inl (MaxTokens_not_positive i))"

fun issues_of :: "issue + 'a \<Rightarrow> issue list" where
  "issues_of (Inl e) = [e]"
| "issues_of (Inr _) = []"

definition ConfigSchema_parse ::
  "string option \<Rightarrow> string option \<Rightarrow> number option \<Rightarrow> issue list + Config" where
  "ConfigSchema_parse k m t =
     (case (parse_apiKey k, parse_model m, parse_maxTokens t) of
        (Inr k', Inr m', Inr t') \<Rightarrow> Inr \<lparr>apiKey = k', model = m', maxTokens = t'\<rparr>
      | (rk, rm, rt) \<Rightarrow> Inl (issues_of rk @ issues_of rm @ issues_of rt))"


record Usage =
  inputTokens :: int
  outputTokens :: int

record ClaudeResponse =
  reply_content :: string
  usage :: Usage

record Model =
  created_at :: string
  display_name :: string
  model_id :: string

record ModelsListResponse =
  data :: "Model list"
  first_id :: "string option"
  has_more :: bool
  last_id :: "string option"

section \<open>The remote service and the process\<close>

text \<open>A turn of a conversation, \<open>{role, content}\<close>.\<close>

datatype role = User | Assistant

datatype turn = Turn role string

text \<open>The parameters of \<open>client.messages.create\<close>.\<close>

record request =
  req_model :: string
  max_tokens :: int
  messages :: "turn list"

text \<open>A block of the reply: a text block, or a block of any other type.\<close>

datatype content_block = TextBlock string | OtherBlock

record Message =
  content :: "content_block list"
  input_tokens :: int
  output_tokens :: int

text \<open>
  What a call can throw: an \<open>Anthropic.APIError\<close> with its status and message, any other
  error with its message, or the \<open>TypeError\<close> of the runtime for a property read on \<open>null\<close>
  or \<open>undefined\<close>.
\<close>

datatype thrown = APIError "nat option" string | Error string | TypeError

text \<open>
  The request that \<open>listModels\<close> hands to \<open>fetch\<close>: the query parameters appended to
  \<open>https://api.anthropic.com/v1/models\<close>, in order, and the \<open>x-api-key\<close> header. The
  method is GET and the two other headers are constants.
\<close>

datatype qvalue = QString string | QNumber int

record fetch_request =
  searchParams :: "(string \<times> qvalue) list"
  x_api_key :: string

text \<open>
  The body of a response, as \<open>listModels\<close> and its callers look at it: no JSON at all
  (\<open>response.json()\<close> rejects, with an error that has the message given); the JSON value
  \<open>null\<close>; a JSON object with its \<open>message\<close> property and no array \<open>data\<close>; or a JSON
  object with its \<open>message\<close> property that is a \<open>ModelsListResponse\<close>. The source casts
  the body to \<open>ModelsListResponse\<close> and checks nothing. Other JSON values, and a \<open>message\<close>
  that is not a string, are left out.
\<close>

datatype body =
    NotJson string
  | JsonNull
  | JsonOther "string option"
  | Json "string option" ModelsListResponse

record http_response =
  ok :: bool
  status :: nat
  json :: body

text \<open>
  The remote service during one command, or during one iteration of the chat loop (each
  makes one remote call at most): what \<open>messages.create\<close> and \<open>fetch\<close> answer.
\<close>

record world =
  messages_create :: "request \<Rightarrow> thrown + Message"
  fetch :: "fetch_request \<Rightarrow> thrown + http_response"

text \<open>
  What the process does that can be observed: lines on the terminal and calls of the
  remote service. A line is a list of pieces, as the template strings and the arguments
  of \<open>console.log\<close> give them; colour, emoji and the line breaks inside a message are
  left out, and the rule of box-drawing characters is written with hyphens.
\<close>

datatype piece =
    T string
  | N int
  | LocaleDate string
  | Issues "issue list"
  | Thrown thrown

datatype event =
    Log "piece list"
  | LogError "piece list"
  | Create request
  | Fetch fetch_request

text \<open>
  A computation ends with a value, with \<open>process.exit(code)\<close>, or with a thrown error;
  it comes with the events up to that point.
\<close>

datatype 'a outcome = Value 'a | Exit nat | Throw thrown

type_synonym 'a comp = "event list \<times> 'a outcome"

fun is_remote_call :: "event \<Rightarrow> bool" where
  "is_remote_call (Create _) = True"
| "is_remote_call (Fetch _) = True"
| "is_remote_call (Log _) = False"
| "is_remote_call (LogError _) = False"

definition remote_calls :: "event list \<Rightarrow> event list" where
  "remote_calls tr = filter is_remote_call tr"

fun and_then :: "'a comp \<Rightarrow> ('a \<Rightarrow> 'b comp) \<Rightarrow> 'b comp" where
  "and_then (tr, Value x) f = (case f x of (tr', r) \<Rightarrow> (tr @ tr', r))"
| "and_then (tr, Exit n) f = (tr, Exit n)"
| "and_then (tr, Throw e) f = (tr, Throw e)"

text \<open>\<open>try { ... } catch (error) { ... }\<close>: only a thrown error reaches the handler.\<close>

fun catch_with :: "'a comp \<Rightarrow> (thrown \<Rightarrow> 'a comp) \<Rightarrow> 'a comp" where
  "catch_with (tr, Throw e) h = (case h e of (tr', r) \<Rightarrow> (tr @ tr', r))"
| "catch_with (tr, Value x) h = (tr, Value x)"
| "catch_with (tr, Exit n) h = (tr, Exit n)"

definition emit :: "event list \<Rightarrow> unit comp" where
  "emit evs = (evs, Value ())"

section \<open>lib/config.ts\<close>

text \<open>The three variables of \<open>process.env\<close> that are read, after \<open>dotenv.config()\<close>.\<close>

record env =
  ANTHROPIC_API_KEY :: "string option"
  CLAUDE_MODEL :: "string option"
  MAX_TOKENS :: "string option"

text \<open>\<open>process.env.MAX_TOKENS ? parseInt(process.env.MAX_TOKENS) : undefined\<close>.\<close>

definition env_maxTokens :: "env \<Rightarrow> number option" where
  "env_maxTokens e =
     (case MAX_TOKENS e of
        None \<Rightarrow> None
      | Some s \<Rightarrow> if s \<noteq> [] then Some (parseInt s) else None)"

text \<open>The two lines of the \<open>catch\<close> block, for the issues that \<open>error.message\<close> lists.\<close>

definition config_error_lines :: "issue list \<Rightarrow> event list" where
  "config_error_lines issues =
     [LogError [T ''Configuration error:'', Issues issues],
      LogError [T ''Make sure you have set ANTHROPIC_API_KEY in your .env file'']]"

definition loadConfig :: "env \<Rightarrow> Config comp" where
  "loadConfig e =
     (case ConfigSchema_parse (ANTHROPIC_API_KEY e) (CLAUDE_MODEL e) (env_maxTokens e) of
        Inr cfg \<Rightarrow> ([], Value cfg)
      | Inl issues \<Rightarrow> (config_error_lines issues, Exit 1))"

section \<open>lib/api.ts\<close>

text \<open>
  \<open>handleError\<close> prints and then calls \<open>process.exit(1)\<close> on both of its paths; its
  result type in the source is \<open>never\<close>. First what it prints.
\<close>

definition error_lines :: "thrown \<Rightarrow> event list" where
  "error_lines error =
     (case error of
        APIError st msg \<Rightarrow>
          [LogError [T ''API Error:'', T msg]] @
          (if st = Some 401 then [LogError [T ''Check your API key in the .env file'']]
           else if st = Some 429
             then [LogError [T ''Rate limit exceeded. Please wait a moment.'']]
           else if st = Some 400
             then [LogError [T ''Invalid request. Check your prompt or parameters.'']]
           else [])
      | _ \<Rightarrow> [LogError [T ''Unexpected error:'', Thrown error]])"

definition handleError :: "thrown \<Rightarrow> 'a comp" where
  "handleError error = (error_lines error, Exit 1)"

text \<open>The text of the text blocks of a reply, the other blocks dropped, joined by newlines.\<close>

fun is_text :: "content_block \<Rightarrow> bool" where
  "is_text (TextBlock _) = True"
| "is_text OtherBlock = False"

fun block_text :: "content_block \<Rightarrow> string" where
  "block_text (TextBlock t) = t"
| "block_text OtherBlock = []"

definition extract_text :: "Message \<Rightarrow> string" where
  "extract_text message = join [CHR 0x0A] (map block_text (filter is_text (content message)))"

text \<open>The request of \<open>ask\<close>: one user turn, model and token limit from the configuration.\<close>

definition ask_request :: "Config \<Rightarrow> string \<Rightarrow> request" where
  "ask_request cfg prompt =
     \<lparr>req_model = model cfg, max_tokens = maxTokens cfg, messages = [Turn User prompt]\<rparr>"

definition ask :: "world \<Rightarrow> Config \<Rightarrow> string \<Rightarrow> ClaudeResponse comp" where
  "ask w cfg prompt =
     (let req = ask_request cfg prompt
      in and_then (emit [Create req]) (\<lambda>_.
           case messages_create w req of
             Inr message \<Rightarrow>
               ([], Value \<lparr>reply_content = extract_text message,
                           usage = \<lparr>inputTokens = input_tokens message,
                                    outputTokens = output_tokens message\<rparr>\<rparr>)
           | Inl error \<Rightarrow> handleError error))"

record ListOptions =
  afterId :: "string option"
  beforeId :: "string option"
  limit :: "number option"

text \<open>
  \<open>if (options?.afterId) url.searchParams.append('after_id', options.afterId)\<close> and its
  two siblings: a parameter is appended when the option is there and truthy.
\<close>

definition string_param :: "string \<Rightarrow> string option \<Rightarrow> (string \<times> qvalue) list" where
  "string_param key v =
     (case v of None \<Rightarrow> [] | Some s \<Rightarrow> if s \<noteq> [] then [(key, QString s)] else [])"

fun number_param :: "string \<Rightarrow> number option \<Rightarrow> (string \<times> qvalue) list" where
  "number_param key None = []"
| "number_param key (Some NaN) = []"
| "number_param key (Some (Num i)) = (if i \<noteq> 0 then [(key, QNumber i)] else [])"

definition build_params :: "ListOptions option \<Rightarrow> (string \<times> qvalue) list" where
  "build_params options =
     (case options of
        None \<Rightarrow> []
      | Some opts \<Rightarrow>
          string_param ''after_id'' (afterId opts) @
          string_param ''before_id'' (beforeId opts) @
          number_param ''limit'' (limit opts))"

text \<open>
  \<open>(errorData as any).message || `HTTP error! status: ${response.status}`\<close>, where
  \<open>errorData\<close> is the body, or \<open>{}\<close> when the body is no JSON. On \<open>null\<close> the property read
  throws.
\<close>

definition error_message :: "http_response \<Rightarrow> thrown" where
  "error_message response =
     (let fallback = Error (''HTTP error! status: '' @ toString (status response));
          of_message = (\<lambda>m. case m of
                               Some msg \<Rightarrow> if msg \<noteq> [] then Error msg else fallback
                             | None \<Rightarrow> fallback)
      in case json response of
           NotJson _ \<Rightarrow> fallback
         | JsonNull \<Rightarrow> TypeError
         | JsonOther m \<Rightarrow> of_message m
         | Json m _ \<Rightarrow> of_message m)"

text \<open>
  The value returned is the body as it is: \<open>Some\<close> of the page when it is one, and \<open>None\<close>
  for \<open>null\<close> and for an object with no \<open>data\<close>, on which the callers' \<open>response.data.forEach\<close>
  throws.
\<close>

definition listModels ::
  "world \<Rightarrow> Config \<Rightarrow> ListOptions option \<Rightarrow> ModelsListResponse option comp" where
  "listModels w cfg options =
     (let rq = \<lparr>searchParams = build_params options, x_api_key = apiKey cfg\<rparr>
      in and_then (emit [Fetch rq]) (\<lambda>_.
           case fetch w rq of
             Inl error \<Rightarrow> handleError error
           | Inr response \<Rightarrow>
               if \<not> ok response
               then handleError (error_message response)
               else (case json response of
                       NotJson msg \<Rightarrow> handleError (Error msg)
                     | JsonNull \<Rightarrow> ([], Value None)
                     | JsonOther _ \<Rightarrow> ([], Value None)
                     | Json _ page \<Rightarrow> ([], Value (Some page)))))"

text \<open>
  Arrays are objects: a variable holds a reference to one. The heap gives the turns of
  each array, and \<open>next_ref\<close> is the first reference not yet in use.
\<close>

record heap =
  cells :: "nat \<Rightarrow> turn list"
  next_ref :: nat

definition alloc :: "heap \<Rightarrow> turn list \<Rightarrow> heap \<times> nat" where
  "alloc hp xs =
     (hp\<lparr>cells := (cells hp)(next_ref hp := xs), next_ref := Suc (next_ref hp)\<rparr>, next_ref hp)"

definition push :: "heap \<Rightarrow> nat \<Rightarrow> turn \<Rightarrow> heap" where
  "push hp r x = hp\<lparr>cells := (cells hp)(r := cells hp r @ [x])\<rparr>"

record ChatResult =
  response :: string
  chat_usage :: Usage
  updatedHistory :: nat

text \<open>
  Modelled from the spec: \<open>ClaudeAPI.chat\<close>, which \<open>index.ts\<close> calls and which the
  \<open>lib/api.ts\<close> at hand does not have. The spec (4.2): "Appends a user turn to a copy of
  \<open>history\<close>, issues the request with the full turn sequence, appends the assistant's reply
  as a new turn, and returns the extended history. Does not mutate the caller's history in
  place"; and "every operation funnels failures through one error-classification
  routine", which is \<open>handleError\<close>. The reply's text is read as \<open>ask\<close> reads it.
\<close>

definition chat :: "world \<Rightarrow> Config \<Rightarrow> heap \<Rightarrow> nat \<Rightarrow> string \<Rightarrow> (heap \<times> ChatResult) comp" where
  "chat w cfg hp history prompt =
     (case alloc hp (cells hp history) of (hp1, copy) \<Rightarrow>
        let hp2 = push hp1 copy (Turn User prompt);
            req = \<lparr>req_model = model cfg, max_tokens = maxTokens cfg,
                   messages = cells hp2 copy\<rparr>
        in and_then (emit [Create req]) (\<lambda>_.
             case messages_create w req of
               Inr message \<Rightarrow>
                 ([], Value (push hp2 copy (Turn Assistant (extract_text message)),
                             \<lparr>response = extract_text message,
                              chat_usage = \<lparr>inputTokens = input_tokens message,
                                             outputTokens = output_tokens message\<rparr>,
                              updatedHistory = copy\<rparr>))
             | Inl error \<Rightarrow> handleError error))"

section \<open>index.ts\<close>

text \<open>The entry point in its revision with the three commands \<open>models\<close>, \<open>ask\<close> and \<open>chat\<close>.\<close>

text \<open>The lines that list the models, in \<open>models\<close> and in \<open>/model\<close> of the chat.\<close>

fun model_lines :: "nat \<Rightarrow> Model list \<Rightarrow> event list" where
  "model_lines index [] = []"
| "model_lines index (m # ms) =
     [Log [N (int index + 1), T ''. '', T (display_name m)],
      Log [T ''   ID: '', T (model_id m)],
      Log [T ''   Released: '', LocaleDate (created_at m)]] @ model_lines (Suc index) ms"

definition more_note :: "ModelsListResponse \<Rightarrow> event list" where
  "more_note r =
     (if has_more r
      then [Log [T ''Note: More models are available. This shows the most recent ones.'']]
      else [])"

text \<open>
  The lines printed once \<open>listModels\<close> has returned: the heading, then one block for each
  model and the note. On a value with no \<open>data\<close> the heading is printed and
  \<open>response.data.forEach\<close> throws.
\<close>

definition print_models :: "ModelsListResponse option \<Rightarrow> unit comp" where
  "print_models listed =
     and_then (emit [Log [T ''Available Claude Models:'']]) (\<lambda>_.
       case listed of
         None \<Rightarrow> ([], Throw TypeError)
       | Some r \<Rightarrow> emit (model_lines 0 (data r) @ more_note r))"

definition models_action :: "env \<Rightarrow> world \<Rightarrow> unit comp" where
  "models_action e w =
     catch_with
       (and_then (loadConfig e) (\<lambda>cfg.
        and_then (emit [Log [T ''Fetching available models...'']]) (\<lambda>_.
        and_then (listModels w cfg None) print_models)))
       (\<lambda>error. ([LogError [T ''Error fetching models:'', Thrown error]], Exit 1))"

text \<open>
  The options of \<open>ask\<close> as the command line gives them, each given once at most;
  \<open>--tokens\<close> goes through \<open>parseInt\<close>.
\<close>

record AskOptions =
  opt_model :: "string option"
  opt_tokens :: "string option"

text \<open>\<open>if (options.model) config.model = options.model\<close>: an empty string is falsy.\<close>

fun override_model :: "Config \<Rightarrow> string option \<Rightarrow> Config" where
  "override_model cfg None = cfg"
| "override_model cfg (Some m) = (if m \<noteq> [] then cfg\<lparr>model := m\<rparr> else cfg)"

text \<open>\<open>if (options.tokens) config.maxTokens = options.tokens\<close>.\<close>

fun override_tokens :: "Config \<Rightarrow> number option \<Rightarrow> Config" where
  "override_tokens cfg None = cfg"
| "override_tokens cfg (Some NaN) = cfg"
| "override_tokens cfg (Some (Num i)) = (if i \<noteq> 0 then cfg\<lparr>maxTokens := i\<rparr> else cfg)"

definition ask_action :: "env \<Rightarrow> world \<Rightarrow> string \<Rightarrow> AskOptions \<Rightarrow> unit comp" where
  "ask_action e w prompt options =
     catch_with
       (and_then (loadConfig e) (\<lambda>cfg0.
          let cfg1 = override_model cfg0 (opt_model options);
              cfg = override_tokens cfg1 (map_option parseInt (opt_tokens options))
          in and_then (emit [Log [T ''Asking Claude...''],
                             Log [T ''Model: '', T (model cfg)],
                             Log [T ''Max tokens: '', N (maxTokens cfg)]]) (\<lambda>_.
             and_then (ask w cfg prompt) (\<lambda>r.
             emit [Log [T ''Claude says:''],
                   Log [T (reply_content r)],
                   Log [T ''---------------------''],
                   Log [T ''Tokens used: '', N (inputTokens (usage r)), T '' input, '',
                        N (outputTokens (usage r)), T '' output'']]))))
       (\<lambda>error. ([LogError [T ''Error:'', Thrown error]], Exit 1))"

text \<open>
  The chat session: \<open>config\<close> (which the client \<open>api\<close> shares, so that \<open>api\<close> needs no
  field of its own) and the variable \<open>history\<close>, a reference to an array.
\<close>

record session =
  config :: Config
  history :: nat

datatype 'a step = Break | Continue 'a

text \<open>
  What follows \<open>await api.chat(history, trimmed)\<close> in the loop: \<open>history\<close> is bound to
  the array returned, and the reply and its token counts are printed.
\<close>

definition after_chat :: "session \<Rightarrow> heap \<times> ChatResult \<Rightarrow> (heap \<times> session) step comp" where
  "after_chat s = (\<lambda>(hp', r).
     ([Log [T ''Claude:''],
       Log [T (response r)],
       Log [T ''---------------------''],
       Log [T ''Tokens used: '', N (inputTokens (chat_usage r)), T '' input, '',
            N (outputTokens (chat_usage r)), T '' output''],
       Log []],
      Value (Continue (hp', s\<lparr>history := updatedHistory r\<rparr>))))"

text \<open>One iteration of \<open>while (true)\<close>, for the line that \<open>input\<close> returns.\<close>

definition chat_step :: "world \<Rightarrow> heap \<Rightarrow> session \<Rightarrow> string \<Rightarrow> (heap \<times> session) step comp" where
  "chat_step w hp s userInput =
     (let trimmed = trim userInput in
      if trimmed = ''/exit'' then ([Log [T ''Chat ended.'']], Value Break)
      else if trimmed = ''/clear''
      then (case alloc hp [] of (hp', r) \<Rightarrow>
              ([Log [T ''History cleared.'']], Value (Continue (hp', s\<lparr>history := r\<rparr>))))
      else if trimmed = ''/help''
      then ([Log [T ''Commands: /exit, /clear, /help, /model [id]''],
             Log [T ''Current model: '', T (model (config s))]],
            Value (Continue (hp, s)))
      else if startsWith trimmed ''/model''
      then (case split_ws trimmed of
              [_] \<Rightarrow>
                and_then (emit [Log [T ''Fetching available models...'']]) (\<lambda>_.
                and_then (listModels w (config s) None) (\<lambda>listed.
                and_then (print_models listed) (\<lambda>_.
                  ([Log [T ''Current model: '', T (model (config s))]],
                   Value (Continue (hp, s))))))
            | _ # newModel # _ \<Rightarrow>
                if newModel \<in> set ALLOWED_MODELS
                then ([Log [T ''Model set to: '', T newModel]],
                      Value (Continue (hp, s\<lparr>config := (config s)\<lparr>model := newModel\<rparr>\<rparr>)))
                else ([Log [T ''Unknown model id.''],
                       Log [T ''Type /model to list available models.'']],
                      Value (Continue (hp, s)))
            | [] \<Rightarrow>
                ([Log [T ''Unknown model id.''],
                  Log [T ''Type /model to list available models.'']],
                 Value (Continue (hp, s))))
      else if trimmed = [] then ([], Value (Continue (hp, s)))
      else and_then (chat w (config s) hp (history s) trimmed) (after_chat s))"

text \<open>
  The loop, over the lines typed and the remote service as it is during each iteration.
  When the lines run out the session is where it waits for the next one.
\<close>

datatype loop_end = Ended | Awaiting heap session

fun chat_loop :: "heap \<Rightarrow> session \<Rightarrow> (string \<times> world) list \<Rightarrow> loop_end comp" where
  "chat_loop hp s [] = ([], Value (Awaiting hp s))"
| "chat_loop hp s ((userInput, w) # rest) =
     (case chat_step w hp s userInput of
        (tr, Value Break) \<Rightarrow> (tr, Value Ended)
      | (tr, Value (Continue (hp', s'))) \<Rightarrow>
          (case chat_loop hp' s' rest of (tr', r) \<Rightarrow> (tr @ tr', r))
      | (tr, Exit n) \<Rightarrow> (tr, Exit n)
      | (tr, Throw e) \<Rightarrow> (tr, Throw e))"

text \<open>
  The lines that reach the last branch of the loop body: after \<open>trim\<close> they are not
  \<open>/exit\<close>, \<open>/clear\<close> or \<open>/help\<close>, do not start with \<open>/model\<close> and are not empty.
\<close>

definition is_prompt :: "string \<Rightarrow> bool" where
  "is_prompt userInput =
     (let trimmed = trim userInput
      in trimmed \<noteq> ''/exit'' \<and> trimmed \<noteq> ''/clear'' \<and> trimmed \<noteq> ''/help'' \<and>
         \<not> startsWith trimmed ''/model'' \<and> trimmed \<noteq> [])"

text \<open>\<open>let history = []\<close> in a heap with nothing else in it.\<close>

definition heap0 :: heap where
  "heap0 = \<lparr>cells = (\<lambda>_. []), next_ref = 0\<rparr>"

definition chat_action :: "env \<Rightarrow> (string \<times> world) list \<Rightarrow> loop_end comp" where
  "chat_action e inputs =
     and_then (loadConfig e) (\<lambda>cfg.
     and_then (emit [Log [T ''Welcome to Claude Chat! Type /help for commands.'']]) (\<lambda>_.
       case alloc heap0 [] of (hp, r) \<Rightarrow>
         chat_loop hp \<lparr>config = cfg, history = r\<rparr> inputs))"

section \<open>Notions used in the properties\<close>

text \<open>
  The reply text in the spec's words (4.2, \<open>ask\<close>): "concatenated text segments from the
  reply (discarding any non-text segments)". It is compared with \<open>extract_text\<close> below.
\<close>

definition spec_reply_text :: "Message \<Rightarrow> string" where
  "spec_reply_text message = concat (map block_text (filter is_text (content message)))"

text \<open>A string option as \<open>if (...)\<close> sees it: there and not empty, or not.\<close>

definition truthy_string :: "string option \<Rightarrow> string option" where
  "truthy_string v = (case v of None \<Rightarrow> None | Some s \<Rightarrow> if s \<noteq> [] then Some s else None)"

text \<open>Every \<open>messages.create\<close> among the events names a model of \<open>ALLOWED_MODELS\<close>.\<close>

definition requests_allowed :: "event list \<Rightarrow> bool" where
  "requests_allowed tr =
     (\<forall>ev \<in> set tr. case ev of Create rq \<Rightarrow> req_model rq \<in> set ALLOWED_MODELS | _ \<Rightarrow> True)"

section \<open>Inputs for the examples\<close>

definition env_key_only :: env where
  "env_key_only =
     \<lparr>ANTHROPIC_API_KEY = Some ''sk-test'', CLAUDE_MODEL = None, MAX_TOKENS = None\<rparr>"

definition env_no_key :: env where
  "env_no_key = \<lparr>ANTHROPIC_API_KEY = None, CLAUDE_MODEL = None, MAX_TOKENS = None\<rparr>"

definition config_default :: Config where
  "config_default =
     \<lparr>apiKey = ''sk-test'', model = ''claude-opus-4-20250514'', maxTokens = 1000\<rparr>"

definition reply_two_blocks :: Message where
  "reply_two_blocks =
     \<lparr>content = [TextBlock ''a'', OtherBlock, TextBlock ''b''],
      input_tokens = 5, output_tokens = 2\<rparr>"

definition page_one :: ModelsListResponse where
  "page_one =
     \<lparr>data = [\<lparr>created_at = ''2025-05-14'', display_name = ''Claude Opus 4'',
               model_id = ''claude-opus-4-20250514''\<rparr>],
      first_id = Some ''claude-opus-4-20250514'', has_more = True,
      last_id = Some ''claude-opus-4-20250514''\<rparr>"

definition remote_replies :: world where
  "remote_replies =
     \<lparr>messages_create = (\<lambda>_. Inr reply_two_blocks),
      fetch = (\<lambda>_. Inr \<lparr>ok = True, status = 200, json = Json None page_one\<rparr>)\<rparr>"


definition options_empty_cursor :: ListOptions where
  "options_empty_cursor = \<lparr>afterId = Some [], beforeId = None, limit = None\<rparr>"

definition options_after :: ListOptions where
  "options_after = \<lparr>afterId = Some ''claude-opus-4-20250514'', beforeId = None, limit = None\<rparr>"


text \<open>A session under way: two turns in the array \<open>history\<close> at reference 0.\<close>

definition heap_two_turns :: heap where
  "heap_two_turns =
     \<lparr>cells = (\<lambda>r. if r = 0 then [Turn User ''earlier'', Turn Assistant ''reply''] else []),
      next_ref = 1\<rparr>"

text \<open>A session at its start: the empty array \<open>history\<close> at reference 0.\<close>

definition heap1 :: heap where
  "heap1 = \<lparr>cells = (\<lambda>_. []), next_ref = 1\<rparr>"

definition session0 :: session where
  "session0 = \<lparr>config = config_default, history = 0\<rparr>"

section \<open>Properties of the configuration loader\<close>

lemma and_then_emit: "and_then (emit evs) f = (case f () of (tr, r) \<Rightarrow> (evs @ tr, r))"
  by (simp add: emit_def)

lemma parse_fails_issues:
  "ConfigSchema_parse k m t = Inl issues \<Longrightarrow> issues \<noteq> []"
  by (auto simp: ConfigSchema_parse_def split: sum.splits)

lemma missing_key_fails:
  "k = None \<or> k = Some [] \<Longrightarrow> \<exists>issues. ConfigSchema_parse k m t = Inl issues"
  by (auto simp: ConfigSchema_parse_def split: sum.splits)

lemma loadConfig_fails:
  "ConfigSchema_parse (ANTHROPIC_API_KEY e) (CLAUDE_MODEL e) (env_maxTokens e) = Inl issues
   \<Longrightarrow> loadConfig e = (config_error_lines issues, Exit 1)"
  by (simp add: loadConfig_def)

lemma loadConfig_env_key_only: "loadConfig env_key_only = ([], Value config_default)"
  by (simp add: loadConfig_def env_key_only_def ConfigSchema_parse_def env_maxTokens_def
      config_default_def)

lemma loadConfig_env_no_key:
  "loadConfig env_no_key = (config_error_lines [ApiKey_required], Exit 1)"
  by (simp add: loadConfig_def env_no_key_def ConfigSchema_parse_def env_maxTokens_def)

lemma loadConfig_default_maxTokens:
  "loadConfig e = (tr, Value cfg) \<Longrightarrow> MAX_TOKENS e = None \<or> MAX_TOKENS e = Some [] \<Longrightarrow>
   maxTokens cfg = 1000"
  by (auto simp: loadConfig_def ConfigSchema_parse_def env_maxTokens_def
      split: sum.splits if_splits)

text \<open>What validation refuses, on the three kinds of value the spec names.\<close>

lemma non_numeric_token_limit_refused:
  "env_maxTokens (e\<lparr>MAX_TOKENS := Some ''many''\<rparr>) = Some NaN \<and>
   parse_maxTokens (Some NaN) = Inl MaxTokens_not_a_number"
  by (simp add: env_maxTokens_def parseInt_def is_space_def digit_value_def)

lemma non_positive_token_limit_refused:
  "i \<le> 0 \<Longrightarrow> parse_maxTokens (Some (Num i)) = Inl (MaxTokens_not_positive i)"
  by simp

lemma model_outside_allowed_set_refused:
  "m \<notin> set ALLOWED_MODELS \<Longrightarrow> parse_model (Some m) = Inl (Model_invalid_enum_value m)"
  by simp

lemma parse_issue_for_key:
  "ConfigSchema_parse k m t = Inl issues \<Longrightarrow>
   (k = None \<longrightarrow> ApiKey_required \<in> set issues) \<and>
   (k = Some [] \<longrightarrow> ApiKey_too_small \<in> set issues)"
  by (auto simp: ConfigSchema_parse_def split: sum.splits)

text \<open>
  C3. When the API key is missing or empty, or \<open>ConfigSchema.parse\<close> refuses a value,
  each of the three commands prints the line \<open>Configuration error:\<close> with the issues
  found (the one about the key among them when the key is missing or empty) and the line
  about \<open>ANTHROPIC_API_KEY\<close>, exits with status 1, and does nothing else: no call of the
  remote service is among the events.
\<close>

theorem configuration_error_before_any_remote_call:
  assumes "ANTHROPIC_API_KEY e = None \<or> ANTHROPIC_API_KEY e = Some [] \<or>
           isl (ConfigSchema_parse (ANTHROPIC_API_KEY e) (CLAUDE_MODEL e) (env_maxTokens e))"
  shows "\<exists>issues lines.
           ConfigSchema_parse (ANTHROPIC_API_KEY e) (CLAUDE_MODEL e) (env_maxTokens e) =
             Inl issues \<and>
           issues \<noteq> [] \<and>
           (ANTHROPIC_API_KEY e = None \<longrightarrow> ApiKey_required \<in> set issues) \<and>
           (ANTHROPIC_API_KEY e = Some [] \<longrightarrow> ApiKey_too_small \<in> set issues) \<and>
           lines =
             [LogError [T ''Configuration error:'', Issues issues],
              LogError [T ''Make sure you have set ANTHROPIC_API_KEY in your .env file'']] \<and>
           ask_action e w prompt options = (lines, Exit 1) \<and>
           models_action e w = (lines, Exit 1) \<and>
           chat_action e inputs = (lines, Exit 1) \<and>
           remote_calls lines = []"
proof -
  from assms obtain issues where
    p: "ConfigSchema_parse (ANTHROPIC_API_KEY e) (CLAUDE_MODEL e) (env_maxTokens e) = Inl issues"
    using missing_key_fails[of "ANTHROPIC_API_KEY e" "CLAUDE_MODEL e" "env_maxTokens e"]
    by (auto simp: isl_def)
  define lines where "lines =
    [LogError [T ''Configuration error:'', Issues issues],
     LogError [T ''Make sure you have set ANTHROPIC_API_KEY in your .env file'']]"
  have l: "loadConfig e = (lines, Exit 1)"
    by (simp add: loadConfig_fails[OF p] config_error_lines_def lines_def)
  have "issues \<noteq> []" by (rule parse_fails_issues[OF p])
  moreover have "(ANTHROPIC_API_KEY e = None \<longrightarrow> ApiKey_required \<in> set issues) \<and>
                 (ANTHROPIC_API_KEY e = Some [] \<longrightarrow> ApiKey_too_small \<in> set issues)"
    by (rule parse_issue_for_key[OF p])
  moreover have "ask_action e w prompt options = (lines, Exit 1)"
    by (simp add: ask_action_def l)
  moreover have "models_action e w = (lines, Exit 1)"
    by (simp add: models_action_def l)
  moreover have "chat_action e inputs = (lines, Exit 1)"
    by (simp add: chat_action_def l)
  moreover have "remote_calls lines = []"
    by (simp add: remote_calls_def lines_def)
  ultimately show ?thesis
    using p lines_def by (intro exI[of _ issues] exI[of _ lines]) simp
qed

theorem configuration_error_before_any_remote_call_witness:
  "ANTHROPIC_API_KEY env_no_key = None \<and>
   ask_action env_no_key remote_replies ''hi'' \<lparr>opt_model = None, opt_tokens = None\<rparr> =
     ([LogError [T ''Configuration error:'', Issues [ApiKey_required]],
       LogError [T ''Make sure you have set ANTHROPIC_API_KEY in your .env file'']],
      Exit 1) \<and>
   models_action env_no_key remote_replies =
     ([LogError [T ''Configuration error:'', Issues [ApiKey_required]],
       LogError [T ''Make sure you have set ANTHROPIC_API_KEY in your .env file'']],
      Exit 1) \<and>
   chat_action env_no_key [(''hi'', remote_replies)] =
     ([LogError [T ''Configuration error:'', Issues [ApiKey_required]],
       LogError [T ''Make sure you have set ANTHROPIC_API_KEY in your .env file'']],
      Exit 1)"
proof -
  have h: "ANTHROPIC_API_KEY env_no_key = None" by (simp add: env_no_key_def)
  have i: "ConfigSchema_parse (ANTHROPIC_API_KEY env_no_key) (CLAUDE_MODEL env_no_key)
             (env_maxTokens env_no_key) = Inl [ApiKey_required]"
    by (simp add: env_no_key_def ConfigSchema_parse_def env_maxTokens_def)
  from configuration_error_before_any_remote_call[OF disjI1[OF h],
      of remote_replies "''hi''" "\<lparr>opt_model = None, opt_tokens = None\<rparr>"
        "[(''hi'', remote_replies)]"] h i
  show ?thesis by auto
qed

section \<open>Properties of the command \<open>ask\<close>\<close>

lemma override_tokens_falsy:
  "n = NaN \<or> n = Num 0 \<Longrightarrow> override_tokens cfg (Some n) = cfg"
  by auto

lemma ask_first_event:
  "\<exists>tr r. ask w cfg prompt = (Create (ask_request cfg prompt) # tr, r)"
  by (cases "messages_create w (ask_request cfg prompt)")
     (simp_all add: ask_def and_then_emit Let_def handleError_def)

text \<open>
  C10. When \<open>--tokens\<close> parses to \<open>NaN\<close> or to 0, \<open>ask\<close> behaves as if the option had not
  been given: nothing is refused, and the request goes out with the token limit of the
  loaded configuration, which is 1000 when \<open>MAX_TOKENS\<close> is not set.
\<close>

theorem falsy_tokens_option_is_ignored:
  assumes "loadConfig e = ([], Value cfg0)"
    and "parseInt t = NaN \<or> parseInt t = Num 0"
  shows "ask_action e w prompt \<lparr>opt_model = m, opt_tokens = Some t\<rparr> =
           ask_action e w prompt \<lparr>opt_model = m, opt_tokens = None\<rparr> \<and>
         (\<exists>tr r. ask_action e w prompt \<lparr>opt_model = m, opt_tokens = Some t\<rparr> =
            ([Log [T ''Asking Claude...''],
              Log [T ''Model: '', T (model (override_model cfg0 m))],
              Log [T ''Max tokens: '', N (maxTokens cfg0)],
              Create \<lparr>req_model = model (override_model cfg0 m), max_tokens = maxTokens cfg0,
                      messages = [Turn User prompt]\<rparr>] @ tr, r)) \<and>
         (MAX_TOKENS e = None \<longrightarrow> maxTokens cfg0 = 1000)"
proof -
  have o: "override_tokens c (Some (parseInt t)) = c" for c
    using assms(2) by (rule override_tokens_falsy)
  have same: "ask_action e w prompt \<lparr>opt_model = m, opt_tokens = Some t\<rparr> =
              ask_action e w prompt \<lparr>opt_model = m, opt_tokens = None\<rparr>"
    by (simp add: ask_action_def o)
  have mt: "maxTokens (override_model cfg0 m) = maxTokens cfg0"
    by (cases m) simp_all
  obtain tr r where a: "ask w (override_model cfg0 m) prompt =
      (Create (ask_request (override_model cfg0 m) prompt) # tr, r)"
    using ask_first_event by blast
  have "\<exists>tr r. ask_action e w prompt \<lparr>opt_model = m, opt_tokens = Some t\<rparr> =
            ([Log [T ''Asking Claude...''],
              Log [T ''Model: '', T (model (override_model cfg0 m))],
              Log [T ''Max tokens: '', N (maxTokens cfg0)],
              Create \<lparr>req_model = model (override_model cfg0 m), max_tokens = maxTokens cfg0,
                      messages = [Turn User prompt]\<rparr>] @ tr, r)"
    by (cases r)
       (simp_all add: ask_action_def assms(1) o and_then_emit a ask_request_def mt emit_def
          Let_def)
  moreover have "MAX_TOKENS e = None \<longrightarrow> maxTokens cfg0 = 1000"
    using loadConfig_default_maxTokens[OF assms(1)] by blast
  ultimately show ?thesis using same by blast
qed

theorem falsy_tokens_option_is_ignored_witness:
  "loadConfig env_key_only = ([], Value config_default) \<and> parseInt ''abc'' = NaN \<and>
   ask_action env_key_only remote_replies ''hi'' \<lparr>opt_model = None, opt_tokens = Some ''abc''\<rparr> =
     ask_action env_key_only remote_replies ''hi'' \<lparr>opt_model = None, opt_tokens = None\<rparr> \<and>
   maxTokens config_default = 1000"
proof -
  have h1: "loadConfig env_key_only = ([], Value config_default)"
    by (rule loadConfig_env_key_only)
  have h2: "parseInt ''abc'' = NaN"
    by (simp add: parseInt_def is_space_def digit_value_def)
  have h3: "MAX_TOKENS env_key_only = None" by (simp add: env_key_only_def)
  from falsy_tokens_option_is_ignored[OF h1 disjI1[OF h2], of remote_replies "''hi''" None]
    h1 h2 h3
  show ?thesis by simp
qed

section \<open>Properties of the model client\<close>

lemma join_single_or_none: "length xs \<le> 1 \<Longrightarrow> join sep xs = concat xs"
  by (cases "(sep, xs)" rule: join.cases) simp_all

text \<open>
  C8, as stated, fails. For a reply with the text blocks \<open>a\<close> and \<open>b\<close> (and a block of
  another type between them) \<open>ask\<close> returns the two texts with a newline between them,
  not their concatenation.
\<close>

theorem ask_reply_differs_from_concatenation:
  "ask remote_replies config_default ''hi'' =
     ([Create \<lparr>req_model = ''claude-opus-4-20250514'', max_tokens = 1000,
               messages = [Turn User ''hi'']\<rparr>],
      Value \<lparr>reply_content = [CHR ''a'', CHR 0x0A, CHR ''b''],
             usage = \<lparr>inputTokens = 5, outputTokens = 2\<rparr>\<rparr>) \<and>
   spec_reply_text reply_two_blocks = ''ab'' \<and>
   extract_text reply_two_blocks \<noteq> spec_reply_text reply_two_blocks"
  by (simp add: ask_def and_then_emit ask_request_def remote_replies_def config_default_def
      reply_two_blocks_def extract_text_def spec_reply_text_def)

text \<open>
  C8, amended. \<open>ask\<close> sends one request, with the single user turn that carries the
  prompt, and on success returns the texts of the text blocks of the reply, in order and
  joined by newlines, the other blocks dropped, together with the token counts of the
  reply. With one text block at most this is the concatenation.
\<close>

theorem ask_returns_joined_text_and_usage:
  assumes "messages_create w \<lparr>req_model = model cfg, max_tokens = maxTokens cfg,
                               messages = [Turn User prompt]\<rparr> = Inr message"
  shows "ask w cfg prompt =
           ([Create \<lparr>req_model = model cfg, max_tokens = maxTokens cfg,
                     messages = [Turn User prompt]\<rparr>],
            Value \<lparr>reply_content =
                     join [CHR 0x0A] (map block_text (filter is_text (content message))),
                   usage = \<lparr>inputTokens = input_tokens message,
                            outputTokens = output_tokens message\<rparr>\<rparr>) \<and>
         (length (filter is_text (content message)) \<le> 1 \<longrightarrow>
            join [CHR 0x0A] (map block_text (filter is_text (content message))) =
              spec_reply_text message)"
  using assms
  by (simp add: ask_def and_then_emit ask_request_def extract_text_def spec_reply_text_def
      join_single_or_none)

theorem ask_returns_joined_text_and_usage_witness:
  "messages_create remote_replies
     \<lparr>req_model = model config_default, max_tokens = maxTokens config_default,
      messages = [Turn User ''hi'']\<rparr> = Inr reply_two_blocks \<and>
   snd (ask remote_replies config_default ''hi'') =
     Value \<lparr>reply_content = [CHR ''a'', CHR 0x0A, CHR ''b''],
            usage = \<lparr>inputTokens = 5, outputTokens = 2\<rparr>\<rparr>"
proof -
  have h: "messages_create remote_replies
     \<lparr>req_model = model config_default, max_tokens = maxTokens config_default,
      messages = [Turn User ''hi'']\<rparr> = Inr reply_two_blocks"
    by (simp add: remote_replies_def)
  from ask_returns_joined_text_and_usage[OF h] h
  show ?thesis by (simp add: reply_two_blocks_def)
qed


lemma map_of_string_param:
  "map_of (string_param key v) k =
     (if k = key then map_option QString (truthy_string v) else None)"
  by (simp add: string_param_def truthy_string_def split: option.splits)

lemma map_of_number_param_other:
  "k \<noteq> key \<Longrightarrow> map_of (number_param key n) k = None"
  by (cases "(key, n)" rule: number_param.cases) simp_all

lemma listModels_first_event:
  "\<exists>tr r. listModels w cfg options =
     (Fetch \<lparr>searchParams = build_params options, x_api_key = apiKey cfg\<rparr> # tr, r) \<and>
     remote_calls tr = []"
  by (simp add: listModels_def and_then_emit Let_def handleError_def remote_calls_def
      error_lines_def split: sum.splits body.splits thrown.splits)

text \<open>
  C9, as stated, fails. A cursor that is the empty string is not forwarded: the request
  carries no \<open>after_id\<close> at all.
\<close>

theorem listModels_drops_empty_cursor:
  "afterId options_empty_cursor = Some [] \<and>
   listModels remote_replies config_default (Some options_empty_cursor) =
     ([Fetch \<lparr>searchParams = [], x_api_key = ''sk-test''\<rparr>], Value (Some page_one)) \<and>
   map_of (build_params (Some options_empty_cursor)) ''after_id'' \<noteq>
     map_option QString (afterId options_empty_cursor)"
  by (simp add: listModels_def and_then_emit build_params_def string_param_def
      options_empty_cursor_def remote_replies_def config_default_def)

text \<open>
  C9, amended. \<open>listModels\<close> makes exactly one remote call, whatever the remote service
  answers. Its \<open>after_id\<close> and \<open>before_id\<close> are the cursors of the options, unchanged, when
  these are there and not empty, and are left out otherwise. From a response that is ok
  and whose body is a page, that page is returned as it is.
\<close>

theorem listModels_one_page_nonempty_cursors:
  "remote_calls (fst (listModels w cfg options)) =
     [Fetch \<lparr>searchParams = build_params options, x_api_key = apiKey cfg\<rparr>] \<and>
   (options = None \<longrightarrow> build_params options = []) \<and>
   (\<forall>opts. options = Some opts \<longrightarrow>
      map_of (build_params options) ''after_id'' = map_option QString (truthy_string (afterId opts)) \<and>
      map_of (build_params options) ''before_id'' = map_option QString (truthy_string (beforeId opts))) \<and>
   (\<forall>response m page.
      fetch w \<lparr>searchParams = build_params options, x_api_key = apiKey cfg\<rparr> = Inr response \<and>
      ok response \<and> json response = Json m page \<longrightarrow>
      snd (listModels w cfg options) = Value (Some page))"
proof -
  obtain tr r where l: "listModels w cfg options =
     (Fetch \<lparr>searchParams = build_params options, x_api_key = apiKey cfg\<rparr> # tr, r)"
     and n: "remote_calls tr = []"
    using listModels_first_event by blast
  have a: "remote_calls (fst (listModels w cfg options)) =
     [Fetch \<lparr>searchParams = build_params options, x_api_key = apiKey cfg\<rparr>]"
    using n by (simp add: l remote_calls_def)
  have b: "options = None \<longrightarrow> build_params options = []"
    by (simp add: build_params_def)
  have c: "map_of (build_params (Some opts)) ''after_id'' =
             map_option QString (truthy_string (afterId opts)) \<and>
           map_of (build_params (Some opts)) ''before_id'' =
             map_option QString (truthy_string (beforeId opts))" for opts
    by (simp add: build_params_def map_add_def map_of_string_param map_of_number_param_other
        split: option.splits)
  have d: "snd (listModels w cfg options) = Value (Some page)"
    if "fetch w \<lparr>searchParams = build_params options, x_api_key = apiKey cfg\<rparr> = Inr response"
      and "ok response" and "json response = Json m page" for response m page
    using that by (simp add: listModels_def and_then_emit)
  from a b c d show ?thesis by blast
qed

theorem listModels_one_page_nonempty_cursors_witness:
  "fetch remote_replies \<lparr>searchParams = build_params (Some options_after),
                          x_api_key = apiKey config_default\<rparr> =
     Inr \<lparr>ok = True, status = 200, json = Json None page_one\<rparr> \<and>
   map_of (build_params (Some options_after)) ''after_id'' =
     Some (QString ''claude-opus-4-20250514'') \<and>
   snd (listModels remote_replies config_default (Some options_after)) =
     Value (Some page_one)"
proof -
  have h: "fetch remote_replies \<lparr>searchParams = build_params (Some options_after),
                          x_api_key = apiKey config_default\<rparr> =
     Inr \<lparr>ok = True, status = 200, json = Json None page_one\<rparr>"
    by (simp add: remote_replies_def)
  from listModels_one_page_nonempty_cursors[of remote_replies config_default "Some options_after"] h
  show ?thesis by (simp add: truthy_string_def options_after_def)
qed

section \<open>Properties of failures\<close>











lemma chat_step_prompt:
  "is_prompt userInput \<Longrightarrow>
   chat_step w hp s userInput =
     and_then (chat w (config s) hp (history s) (trim userInput)) (after_chat s)"
  by (simp add: chat_step_def is_prompt_def Let_def)






section \<open>Properties of the chat session\<close>

lemma is_prompt_stream_on: "is_prompt ''/stream on''"
  by (simp add: is_prompt_def trim_def is_space_def startsWith_def)

lemma is_prompt_stream_off: "is_prompt ''/stream off''"
  by (simp add: is_prompt_def trim_def is_space_def startsWith_def)

lemma trim_stream_on: "trim ''/stream on'' = ''/stream on''"
  by (simp add: trim_def is_space_def)

lemma chat_success:
  assumes "messages_create w \<lparr>req_model = model cfg, max_tokens = maxTokens cfg,
                               messages = cells hp h @ [Turn User prompt]\<rparr> = Inr message"
  shows "chat w cfg hp h prompt =
           ([Create \<lparr>req_model = model cfg, max_tokens = maxTokens cfg,
                     messages = cells hp h @ [Turn User prompt]\<rparr>],
            Value (\<lparr>cells = (cells hp)(next_ref hp :=
                               cells hp h @
                               [Turn User prompt, Turn Assistant (extract_text message)]),
                    next_ref = Suc (next_ref hp)\<rparr>,
                   \<lparr>response = extract_text message,
                    chat_usage = \<lparr>inputTokens = input_tokens message,
                                  outputTokens = output_tokens message\<rparr>,
                    updatedHistory = next_ref hp\<rparr>))"
  using assms by (simp add: chat_def alloc_def push_def and_then_emit Let_def)

text \<open>
  C6, as stated, fails. The session has no streaming flag (\<open>session\<close> holds \<open>config\<close> and
  \<open>history\<close> only) and the loop knows no \<open>/stream\<close> command: the line \<open>/stream on\<close> is
  sent to the remote service as a prompt, through \<open>chat\<close>, and stays in the history that
  the next prompt carries.
\<close>

theorem stream_on_is_sent_as_prompt:
  "remote_calls (fst (chat_action env_key_only
      [(''/stream on'', remote_replies), (''hello'', remote_replies)])) =
     [Create \<lparr>req_model = ''claude-opus-4-20250514'', max_tokens = 1000,
              messages = [Turn User ''/stream on'']\<rparr>,
      Create \<lparr>req_model = ''claude-opus-4-20250514'', max_tokens = 1000,
              messages = [Turn User ''/stream on'',
                          Turn Assistant [CHR ''a'', CHR 0x0A, CHR ''b''],
                          Turn User ''hello'']\<rparr>]"
  by (simp add: chat_action_def loadConfig_env_key_only and_then_emit alloc_def heap0_def
      chat_step_def trim_def is_space_def startsWith_def chat_def push_def Let_def
      remote_replies_def reply_two_blocks_def extract_text_def after_chat_def
      config_default_def remote_calls_def)


lemma chat_first_event:
  "\<exists>tr r. chat w cfg hp h prompt =
     (Create \<lparr>req_model = model cfg, max_tokens = maxTokens cfg,
              messages = cells hp h @ [Turn User prompt]\<rparr> # tr, r) \<and> remote_calls tr = []"
  by (cases "messages_create w \<lparr>req_model = model cfg, max_tokens = maxTokens cfg,
              messages = cells hp h @ [Turn User prompt]\<rparr>")
     (simp_all add: chat_def alloc_def push_def and_then_emit Let_def handleError_def
        remote_calls_def error_lines_def split: thrown.splits)

text \<open>
  C6, amended. Every line that is not empty, is not \<open>/exit\<close>, \<open>/clear\<close> or \<open>/help\<close> and does
  not start with \<open>/model\<close> is forwarded, trimmed, to \<open>chat\<close> with the current history;
  \<open>/stream on\<close> and \<open>/stream off\<close> are such lines. Nothing is forwarded to \<open>chatStream\<close>.
\<close>

theorem prompts_go_to_chat:
  "(is_prompt userInput \<longrightarrow>
      chat_step w hp s userInput =
        and_then (chat w (config s) hp (history s) (trim userInput)) (after_chat s) \<and>
      (\<exists>tr r. chat_step w hp s userInput =
         (Create \<lparr>req_model = model (config s), max_tokens = maxTokens (config s),
                  messages = cells hp (history s) @ [Turn User (trim userInput)]\<rparr> # tr, r))) \<and>
   is_prompt ''/stream on'' \<and> is_prompt ''/stream off''"
proof -
  have "\<exists>tr r. chat_step w hp s userInput =
         (Create \<lparr>req_model = model (config s), max_tokens = maxTokens (config s),
                  messages = cells hp (history s) @ [Turn User (trim userInput)]\<rparr> # tr, r)"
    if p: "is_prompt userInput"
  proof -
    obtain tr r where c: "chat w (config s) hp (history s) (trim userInput) =
         (Create \<lparr>req_model = model (config s), max_tokens = maxTokens (config s),
                  messages = cells hp (history s) @ [Turn User (trim userInput)]\<rparr> # tr, r)"
      using chat_first_event by blast
    show ?thesis
      by (cases r) (auto simp: chat_step_prompt[OF p] c after_chat_def)
  qed
  then show ?thesis
    using chat_step_prompt is_prompt_stream_on is_prompt_stream_off by blast
qed

theorem prompts_go_to_chat_witness:
  "is_prompt ''/stream on'' \<and>
   (\<exists>tr r. chat_step remote_replies heap1 session0 ''/stream on'' =
      (Create \<lparr>req_model = ''claude-opus-4-20250514'', max_tokens = 1000,
               messages = [Turn User ''/stream on'']\<rparr> # tr, r))"
proof -
  have p: "is_prompt ''/stream on''"
    by (simp add: is_prompt_def trim_def is_space_def startsWith_def)
  have v: "model (config session0) = ''claude-opus-4-20250514'' \<and>
           maxTokens (config session0) = 1000 \<and>
           cells heap1 (history session0) @ [Turn User (trim ''/stream on'')] =
             [Turn User ''/stream on'']"
    by (simp add: session0_def config_default_def heap1_def trim_def is_space_def)
  from prompts_go_to_chat[of "''/stream on''" remote_replies heap1 session0] p
  have "\<exists>tr r. chat_step remote_replies heap1 session0 ''/stream on'' =
      (Create \<lparr>req_model = model (config session0), max_tokens = maxTokens (config session0),
               messages = cells heap1 (history session0) @ [Turn User (trim ''/stream on'')]\<rparr>
       # tr, r)"
    by blast
  then show ?thesis using p by (simp only: v simp_thms)
qed

lemma chat_step_clear:
  "trim userInput = ''/clear'' \<Longrightarrow>
   chat_step w hp s userInput =
     ([Log [T ''History cleared.'']],
      Value (Continue (\<lparr>cells = (cells hp)(next_ref hp := []), next_ref = Suc (next_ref hp)\<rparr>,
                       s\<lparr>history := next_ref hp\<rparr>)))"
  by (simp add: chat_step_def alloc_def)

text \<open>
  C7. Whatever the history holds, \<open>/clear\<close> binds \<open>history\<close> to an empty array and leaves
  the configuration as it is; the loop goes on with the lines that follow; and when the
  next line is a prompt that the remote service answers, the history after it holds the
  two turns of that prompt and nothing else.
\<close>

theorem clear_resets_history:
  assumes "trim userInput = ''/clear''"
  shows "\<exists>hp' s'.
           chat_step w hp s userInput =
             ([Log [T ''History cleared.'']], Value (Continue (hp', s'))) \<and>
           cells hp' (history s') = [] \<and> config s' = config s \<and>
           (\<forall>rest. chat_loop hp s ((userInput, w) # rest) =
              (case chat_loop hp' s' rest of (tr, r) \<Rightarrow> (Log [T ''History cleared.''] # tr, r))) \<and>
           (\<forall>p w' message.
              is_prompt p \<and>
              messages_create w' \<lparr>req_model = model (config s), max_tokens = maxTokens (config s),
                                   messages = [Turn User (trim p)]\<rparr> = Inr message \<longrightarrow>
              (\<exists>tr hp'' s''.
                 chat_loop hp s [(userInput, w), (p, w')] = (tr, Value (Awaiting hp'' s'')) \<and>
                 cells hp'' (history s'') =
                   [Turn User (trim p), Turn Assistant (extract_text message)]))"
proof -
  define hp' where "hp' = \<lparr>cells = (cells hp)(next_ref hp := []), next_ref = Suc (next_ref hp)\<rparr>"
  define s' where "s' = s\<lparr>history := next_ref hp\<rparr>"
  have st: "chat_step w hp s userInput =
             ([Log [T ''History cleared.'']], Value (Continue (hp', s')))"
    unfolding hp'_def s'_def by (rule chat_step_clear[OF assms])
  have e: "cells hp' (history s') = []" by (simp add: hp'_def s'_def)
  have c: "config s' = config s" by (simp add: s'_def)
  have l: "chat_loop hp s ((userInput, w) # rest) =
              (case chat_loop hp' s' rest of (tr, r) \<Rightarrow> (Log [T ''History cleared.''] # tr, r))"
    for rest
    by (simp add: st split: prod.splits)
  have n: "\<exists>tr hp'' s''.
             chat_loop hp s [(userInput, w), (p, w')] = (tr, Value (Awaiting hp'' s'')) \<and>
             cells hp'' (history s'') = [Turn User (trim p), Turn Assistant (extract_text message)]"
    if p: "is_prompt p"
      and m: "messages_create w' \<lparr>req_model = model (config s), max_tokens = maxTokens (config s),
                                   messages = [Turn User (trim p)]\<rparr> = Inr message"
    for p w' message
  proof -
    have m': "messages_create w' \<lparr>req_model = model (config s'), max_tokens = maxTokens (config s'),
                messages = cells hp' (history s') @ [Turn User (trim p)]\<rparr> = Inr message"
      using m by (simp add: e c)
    define hp2 where "hp2 =
      \<lparr>cells = (cells hp')(next_ref hp' := cells hp' (history s') @
                 [Turn User (trim p), Turn Assistant (extract_text message)]),
       next_ref = Suc (next_ref hp')\<rparr>"
    define s2 where "s2 = s'\<lparr>history := next_ref hp'\<rparr>"
    have "\<exists>tr. chat_loop hp' s' [(p, w')] = (tr, Value (Awaiting hp2 s2))"
      by (simp add: chat_step_prompt[OF p] chat_success[OF m'] after_chat_def hp2_def s2_def)
    then obtain tr where t: "chat_loop hp' s' [(p, w')] = (tr, Value (Awaiting hp2 s2))"
      by blast
    have "chat_loop hp s [(userInput, w), (p, w')] =
            (Log [T ''History cleared.''] # tr, Value (Awaiting hp2 s2))"
      by (simp only: l[of "[(p, w')]"] t prod.case)
    moreover have "cells hp2 (history s2) =
            [Turn User (trim p), Turn Assistant (extract_text message)]"
      by (simp add: hp2_def s2_def e)
    ultimately show ?thesis by blast
  qed
  from st e c l n show ?thesis by blast
qed

theorem clear_resets_history_witness:
  "trim '' /clear '' = ''/clear'' \<and>
   cells heap_two_turns (history session0) = [Turn User ''earlier'', Turn Assistant ''reply''] \<and>
   (\<exists>hp' s'. chat_step remote_replies heap_two_turns session0 '' /clear '' =
       ([Log [T ''History cleared.'']], Value (Continue (hp', s'))) \<and>
       cells hp' (history s') = []) \<and>
   is_prompt ''hello'' \<and>
   messages_create remote_replies
     \<lparr>req_model = model (config session0), max_tokens = maxTokens (config session0),
      messages = [Turn User (trim ''hello'')]\<rparr> = Inr reply_two_blocks \<and>
   (\<exists>tr hp'' s''.
      chat_loop heap_two_turns session0 [('' /clear '', remote_replies), (''hello'', remote_replies)] =
        (tr, Value (Awaiting hp'' s'')) \<and>
      cells hp'' (history s'') =
        [Turn User ''hello'', Turn Assistant [CHR ''a'', CHR 0x0A, CHR ''b'']])"
proof -
  have h: "trim '' /clear '' = ''/clear''" by (simp add: trim_def is_space_def)
  have c: "cells heap_two_turns (history session0) =
             [Turn User ''earlier'', Turn Assistant ''reply'']"
    by (simp add: heap_two_turns_def session0_def)
  have p: "is_prompt ''hello''"
    by (simp add: is_prompt_def trim_def is_space_def startsWith_def)
  have m: "messages_create remote_replies
     \<lparr>req_model = model (config session0), max_tokens = maxTokens (config session0),
      messages = [Turn User (trim ''hello'')]\<rparr> = Inr reply_two_blocks"
    by (simp add: remote_replies_def)
  have v: "trim ''hello'' = ''hello''"
    "extract_text reply_two_blocks = [CHR ''a'', CHR 0x0A, CHR ''b'']"
    by (simp_all add: trim_def is_space_def extract_text_def reply_two_blocks_def)
  from clear_resets_history[OF h, of remote_replies heap_two_turns session0]
  obtain hp' s' where
    a: "chat_step remote_replies heap_two_turns session0 '' /clear '' =
          ([Log [T ''History cleared.'']], Value (Continue (hp', s')))"
      "cells hp' (history s') = []"
    and n: "\<forall>p w' message.
              is_prompt p \<and>
              messages_create w'
                \<lparr>req_model = model (config session0), max_tokens = maxTokens (config session0),
                 messages = [Turn User (trim p)]\<rparr> = Inr message \<longrightarrow>
              (\<exists>tr hp'' s''.
                 chat_loop heap_two_turns session0 [('' /clear '', remote_replies), (p, w')] =
                   (tr, Value (Awaiting hp'' s'')) \<and>
                 cells hp'' (history s'') =
                   [Turn User (trim p), Turn Assistant (extract_text message)])"
    by blast
  from n p m have "\<exists>tr hp'' s''.
      chat_loop heap_two_turns session0 [('' /clear '', remote_replies), (''hello'', remote_replies)] =
        (tr, Value (Awaiting hp'' s'')) \<and>
      cells hp'' (history s'') =
        [Turn User (trim ''hello''), Turn Assistant (extract_text reply_two_blocks)]"
    by blast
  then have "\<exists>tr hp'' s''.
      chat_loop heap_two_turns session0 [('' /clear '', remote_replies), (''hello'', remote_replies)] =
        (tr, Value (Awaiting hp'' s'')) \<and>
      cells hp'' (history s'') =
        [Turn User ''hello'', Turn Assistant [CHR ''a'', CHR 0x0A, CHR ''b'']]"
    by (simp only: v)
  with h c a p m show ?thesis by blast
qed

text \<open>
  C4. On success \<open>chat\<close> returns a history that is the one it was given followed by the
  user turn with the prompt and then the assistant turn with the reply. It is a new
  array: the one it was given, and every other array there was, holds what it held.
\<close>

theorem chat_appends_two_turns:
  assumes "h < next_ref hp"
    and "messages_create w \<lparr>req_model = model cfg, max_tokens = maxTokens cfg,
                            messages = cells hp h @ [Turn User prompt]\<rparr> = Inr message"
  shows "\<exists>hp' r.
           chat w cfg hp h prompt =
             ([Create \<lparr>req_model = model cfg, max_tokens = maxTokens cfg,
                       messages = cells hp h @ [Turn User prompt]\<rparr>], Value (hp', r)) \<and>
           response r = extract_text message \<and>
           cells hp' (updatedHistory r) =
             cells hp h @ [Turn User prompt, Turn Assistant (response r)] \<and>
           updatedHistory r \<noteq> h \<and>
           (\<forall>a < next_ref hp. cells hp' a = cells hp a)"
  using assms(1) by (simp add: chat_success[OF assms(2)])

theorem chat_appends_two_turns_witness:
  "(0::nat) < next_ref heap_two_turns \<and>
   cells heap_two_turns 0 = [Turn User ''earlier'', Turn Assistant ''reply''] \<and>
   messages_create remote_replies
     \<lparr>req_model = model config_default, max_tokens = maxTokens config_default,
      messages = cells heap_two_turns 0 @ [Turn User ''hello'']\<rparr> = Inr reply_two_blocks \<and>
   (\<exists>hp' r.
      chat remote_replies config_default heap_two_turns 0 ''hello'' =
        ([Create \<lparr>req_model = ''claude-opus-4-20250514'', max_tokens = 1000,
                  messages = [Turn User ''earlier'', Turn Assistant ''reply'',
                              Turn User ''hello'']\<rparr>],
         Value (hp', r)) \<and>
      response r = [CHR ''a'', CHR 0x0A, CHR ''b''] \<and>
      cells hp' (updatedHistory r) =
        [Turn User ''earlier'', Turn Assistant ''reply'',
         Turn User ''hello'', Turn Assistant [CHR ''a'', CHR 0x0A, CHR ''b'']] \<and>
      updatedHistory r \<noteq> 0 \<and>
      cells hp' 0 = [Turn User ''earlier'', Turn Assistant ''reply''])"
proof -
  have h1: "(0::nat) < next_ref heap_two_turns" by (simp add: heap_two_turns_def)
  have c: "cells heap_two_turns 0 = [Turn User ''earlier'', Turn Assistant ''reply'']"
    by (simp add: heap_two_turns_def)
  have h2: "messages_create remote_replies
     \<lparr>req_model = model config_default, max_tokens = maxTokens config_default,
      messages = cells heap_two_turns 0 @ [Turn User ''hello'']\<rparr> = Inr reply_two_blocks"
    by (simp add: remote_replies_def)
  have v: "extract_text reply_two_blocks = [CHR ''a'', CHR 0x0A, CHR ''b'']"
    "model config_default = ''claude-opus-4-20250514''" "maxTokens config_default = 1000"
    by (simp_all add: extract_text_def reply_two_blocks_def config_default_def)
  from chat_appends_two_turns[OF h1 h2]
  obtain hp' r where
    "chat remote_replies config_default heap_two_turns 0 ''hello'' =
       ([Create \<lparr>req_model = model config_default, max_tokens = maxTokens config_default,
                 messages = cells heap_two_turns 0 @ [Turn User ''hello'']\<rparr>], Value (hp', r))"
    "response r = extract_text reply_two_blocks"
    "cells hp' (updatedHistory r) =
       cells heap_two_turns 0 @ [Turn User ''hello'', Turn Assistant (response r)]"
    "updatedHistory r \<noteq> 0"
    "\<forall>a < next_ref heap_two_turns. cells hp' a = cells heap_two_turns a"
    by blast
  then have
    "chat remote_replies config_default heap_two_turns 0 ''hello'' =
        ([Create \<lparr>req_model = ''claude-opus-4-20250514'', max_tokens = 1000,
                  messages = [Turn User ''earlier'', Turn Assistant ''reply'',
                              Turn User ''hello'']\<rparr>],
         Value (hp', r)) \<and>
      response r = [CHR ''a'', CHR 0x0A, CHR ''b''] \<and>
      cells hp' (updatedHistory r) =
        [Turn User ''earlier'', Turn Assistant ''reply'',
         Turn User ''hello'', Turn Assistant [CHR ''a'', CHR 0x0A, CHR ''b'']] \<and>
      updatedHistory r \<noteq> 0 \<and>
      cells hp' 0 = [Turn User ''earlier'', Turn Assistant ''reply'']"
    using h1 by (simp add: v c)
  with h1 c h2 show ?thesis by blast
qed

text \<open>
  C1, at the input where the code departs from it. \<open>ask hi --model bogus-id\<close>, with a
  valid environment, sends its request with the model \<open>bogus-id\<close>, which is none of
  \<open>ALLOWED_MODELS\<close>: the override is assigned to \<open>config.model\<close> unchecked.
\<close>

theorem ask_model_override_not_validated:
  "''bogus-id'' \<notin> set ALLOWED_MODELS \<and>
   ask_action env_key_only remote_replies ''hi'' \<lparr>opt_model = Some ''bogus-id'', opt_tokens = None\<rparr> =
     ([Log [T ''Asking Claude...''],
       Log [T ''Model: '', T ''bogus-id''],
       Log [T ''Max tokens: '', N 1000],
       Create \<lparr>req_model = ''bogus-id'', max_tokens = 1000, messages = [Turn User ''hi'']\<rparr>,
       Log [T ''Claude says:''],
       Log [T [CHR ''a'', CHR 0x0A, CHR ''b'']],
       Log [T ''---------------------''],
       Log [T ''Tokens used: '', N 5, T '' input, '', N 2, T '' output'']],
      Value ())"
  by (simp add: ALLOWED_MODELS_def ask_action_def loadConfig_env_key_only config_default_def
      and_then_emit emit_def ask_def ask_request_def remote_replies_def reply_two_blocks_def
      extract_text_def)


section \<open>The model of a request\<close>

text \<open>
  In the chat session the model is checked. For an identifier with no white space in it,
  \<open>/model <id>\<close> switches when it is one of \<open>ALLOWED_MODELS\<close> and changes nothing when it is
  not; and every request of a chat session names a model of \<open>ALLOWED_MODELS\<close>.
\<close>

lemma split_from_no_space:
  "\<forall>c \<in> set xs. \<not> is_space c \<Longrightarrow> split_from b cur xs = [rev cur @ xs]"
  by (induction xs arbitrary: b cur) simp_all

lemma split_ws_model_command:
  "\<forall>c \<in> set m. \<not> is_space c \<Longrightarrow> split_ws (''/model '' @ m) = [''/model'', m]"
  using split_from_no_space[of m True "[]"]
  by (simp add: split_ws_def is_space_def)

lemma dropWhile_keeps:
  "xs \<noteq> [] \<Longrightarrow> \<not> P (hd xs) \<Longrightarrow> dropWhile P xs = xs"
  by (cases xs) simp_all

lemma trim_no_outer_space:
  assumes "s \<noteq> []" and "\<not> is_space (hd s)" and "\<not> is_space (last s)"
  shows "trim s = s"
proof -
  have a: "dropWhile is_space s = s"
    using assms(1,2) by (rule dropWhile_keeps)
  have "rev s \<noteq> []" and "\<not> is_space (hd (rev s))"
    using assms(1,3) by (simp_all add: hd_rev)
  then have b: "dropWhile is_space (rev s) = rev s"
    by (rule dropWhile_keeps)
  show ?thesis by (simp add: trim_def a b)
qed

lemma model_command_switches_or_rejects:
  assumes "m \<noteq> []" and "\<forall>c \<in> set m. \<not> is_space c"
  shows "chat_step w hp s (''/model '' @ m) =
           (if m \<in> set ALLOWED_MODELS
            then ([Log [T ''Model set to: '', T m]],
                  Value (Continue (hp, s\<lparr>config := (config s)\<lparr>model := m\<rparr>\<rparr>)))
            else ([Log [T ''Unknown model id.''],
                   Log [T ''Type /model to list available models.'']],
                  Value (Continue (hp, s))))"
proof -
  define u where "u = ''/model '' @ m"
  have "u \<noteq> []" and "\<not> is_space (hd u)" and "\<not> is_space (last u)"
    using assms by (simp_all add: u_def is_space_def)
  then have t: "trim u = u" by (rule trim_no_outer_space)
  have sp: "split_ws u = [''/model'', m]"
    using split_from_no_space[OF assms(2), of True "[]"]
    by (simp add: u_def split_ws_def is_space_def)
  have st: "startsWith u ''/model''" by (simp add: u_def startsWith_def)
  have ne: "u \<noteq> ''/exit''" "u \<noteq> ''/clear''" "u \<noteq> ''/help''"
    by (simp_all add: u_def)
  have "chat_step w hp s u =
           (if m \<in> set ALLOWED_MODELS
            then ([Log [T ''Model set to: '', T m]],
                  Value (Continue (hp, s\<lparr>config := (config s)\<lparr>model := m\<rparr>\<rparr>)))
            else ([Log [T ''Unknown model id.''],
                   Log [T ''Type /model to list available models.'']],
                  Value (Continue (hp, s))))"
    by (simp add: chat_step_def t sp st ne)
  then show ?thesis by (simp only: u_def)
qed

lemma requests_allowed_Nil: "requests_allowed []"
  by (simp add: requests_allowed_def)

lemma requests_allowed_Cons:
  "requests_allowed (ev # tr) =
     ((case ev of Create rq \<Rightarrow> req_model rq \<in> set ALLOWED_MODELS | _ \<Rightarrow> True) \<and>
      requests_allowed tr)"
  by (simp add: requests_allowed_def)

lemma requests_allowed_append:
  "requests_allowed (a @ b) = (requests_allowed a \<and> requests_allowed b)"
  by (auto simp: requests_allowed_def)

lemmas requests_allowed_simps =
  requests_allowed_Nil requests_allowed_Cons requests_allowed_append

lemma error_lines_requests_allowed: "requests_allowed (error_lines error)"
  by (cases error) (simp_all add: error_lines_def requests_allowed_simps)

lemma model_lines_requests_allowed: "requests_allowed (model_lines i ms)"
  by (induction ms arbitrary: i) (simp_all add: requests_allowed_simps)

lemma more_note_requests_allowed: "requests_allowed (more_note r)"
  by (simp add: more_note_def requests_allowed_simps)

lemma listModels_requests_allowed: "requests_allowed (fst (listModels w cfg options))"
proof -
  obtain tr r where "listModels w cfg options =
     (Fetch \<lparr>searchParams = build_params options, x_api_key = apiKey cfg\<rparr> # tr, r)"
    and "remote_calls tr = []"
    using listModels_first_event by blast
  moreover from this(2) have "requests_allowed tr"
    by (auto simp: remote_calls_def requests_allowed_def filter_empty_conv split: event.splits)
  ultimately show ?thesis by (simp add: requests_allowed_simps)
qed

lemma chat_requests_allowed:
  assumes "model cfg \<in> set ALLOWED_MODELS"
  shows "requests_allowed (fst (chat w cfg hp h prompt))"
proof -
  obtain tr r where "chat w cfg hp h prompt =
     (Create \<lparr>req_model = model cfg, max_tokens = maxTokens cfg,
              messages = cells hp h @ [Turn User prompt]\<rparr> # tr, r)"
    and "remote_calls tr = []"
    using chat_first_event by blast
  moreover from this(2) have "requests_allowed tr"
    by (auto simp: remote_calls_def requests_allowed_def filter_empty_conv split: event.splits)
  ultimately show ?thesis using assms by (simp add: requests_allowed_simps)
qed

lemma and_then_requests_allowed:
  assumes "requests_allowed (fst c)"
    and "\<And>x. snd c = Value x \<Longrightarrow> requests_allowed (fst (f x))"
  shows "requests_allowed (fst (and_then c f))"
proof (cases c)
  case (Pair tr r)
  then show ?thesis
    using assms by (cases r) (auto simp: requests_allowed_simps split: prod.splits)
qed

lemma and_then_Continue:
  assumes "and_then c f = (tr, Value v)"
  shows "\<exists>tr1 x tr2. c = (tr1, Value x) \<and> f x = (tr2, Value v)"
proof (cases c)
  case (Pair tr1 r)
  then show ?thesis
    using assms by (cases r) (auto split: prod.splits)
qed

lemma print_models_requests_allowed: "requests_allowed (fst (print_models listed))"
  by (cases listed)
     (simp_all add: print_models_def and_then_emit emit_def requests_allowed_simps
        model_lines_requests_allowed more_note_requests_allowed)

lemma chat_step_requests_allowed:
  assumes "model (config s) \<in> set ALLOWED_MODELS"
  shows "requests_allowed (fst (chat_step w hp s userInput))"
proof -
  have c: "requests_allowed
      (fst (and_then (chat w (config s) hp (history s) (trim userInput)) (after_chat s)))"
    by (rule and_then_requests_allowed)
       (auto simp: chat_requests_allowed[OF assms] after_chat_def requests_allowed_simps)
  have l: "requests_allowed
      (fst (and_then (emit [Log [T ''Fetching available models...'']]) (\<lambda>_.
            and_then (listModels w (config s) None) (\<lambda>listed.
            and_then (print_models listed) (\<lambda>_.
              ([Log [T ''Current model: '', T (model (config s))]],
               Value (Continue (hp, s))))))))"
    by (intro and_then_requests_allowed)
       (simp_all add: emit_def listModels_requests_allowed requests_allowed_simps
          print_models_requests_allowed)
  show ?thesis
    using c l
    by (simp add: chat_step_def Let_def alloc_def requests_allowed_simps
        split: list.splits)
qed

lemma chat_step_keeps_allowed_model:
  assumes "model (config s) \<in> set ALLOWED_MODELS"
    and "chat_step w hp s userInput = (tr, Value (Continue (hp', s')))"
  shows "model (config s') \<in> set ALLOWED_MODELS"
proof -
  have c: "model (config s') \<in> set ALLOWED_MODELS"
    if "and_then (chat w (config s) hp (history s) (trim userInput)) (after_chat s) =
          (tr, Value (Continue (hp', s')))"
    using and_then_Continue[OF that] assms(1) by (auto simp: after_chat_def)
  have l: "model (config s') \<in> set ALLOWED_MODELS"
    if "and_then (emit [Log [T ''Fetching available models...'']]) (\<lambda>_.
            and_then (listModels w (config s) None) (\<lambda>listed.
            and_then (print_models listed) (\<lambda>_.
              ([Log [T ''Current model: '', T (model (config s))]],
               Value (Continue (hp, s)))))) = (tr, Value (Continue (hp', s')))"
  proof -
    from and_then_Continue[OF that] obtain tr2 where
      "and_then (listModels w (config s) None) (\<lambda>listed.
            and_then (print_models listed) (\<lambda>_.
              ([Log [T ''Current model: '', T (model (config s))]],
               Value (Continue (hp, s))))) = (tr2, Value (Continue (hp', s')))"
      by blast
    from and_then_Continue[OF this] obtain listed tr3 where
      "and_then (print_models listed) (\<lambda>_.
              ([Log [T ''Current model: '', T (model (config s))]],
               Value (Continue (hp, s)))) = (tr3, Value (Continue (hp', s')))"
      by blast
    from and_then_Continue[OF this] show ?thesis using assms(1) by auto
  qed
  show ?thesis
    using assms c l
    by (auto simp: chat_step_def Let_def alloc_def split: if_splits list.splits)
qed

lemma chat_loop_requests_allowed:
  "model (config s) \<in> set ALLOWED_MODELS \<Longrightarrow> requests_allowed (fst (chat_loop hp s inputs))"
proof (induction inputs arbitrary: hp s)
  case Nil
  then show ?case by (simp add: requests_allowed_simps)
next
  case (Cons a inputs)
  obtain userInput w where a: "a = (userInput, w)" by (cases a)
  obtain tr r where st: "chat_step w hp s userInput = (tr, r)"
    by (cases "chat_step w hp s userInput")
  have k: "requests_allowed tr"
    using chat_step_requests_allowed[OF Cons.prems, of w hp userInput] by (simp add: st)
  show ?case
  proof (cases r)
    case (Value x)
    show ?thesis
    proof (cases x)
      case Break
      then show ?thesis using k by (simp add: a st Value)
    next
      case (Continue y)
      obtain hp' s' where y: "y = (hp', s')" by (cases y)
      obtain tr' r' where n: "chat_loop hp' s' inputs = (tr', r')"
        by (cases "chat_loop hp' s' inputs")
      have "model (config s') \<in> set ALLOWED_MODELS"
        using chat_step_keeps_allowed_model[OF Cons.prems] st Value Continue y by blast
      then have "requests_allowed (fst (chat_loop hp' s' inputs))"
        by (rule Cons.IH)
      then show ?thesis
        using k by (simp add: a st Value Continue y n requests_allowed_simps)
    qed
  next
    case (Exit n)
    then show ?thesis using k by (simp add: a st)
  next
    case (Throw e)
    then show ?thesis using k by (simp add: a st)
  qed
qed

lemma parse_model_allowed: "parse_model m = Inr x \<Longrightarrow> x \<in> set ALLOWED_MODELS"
  by (cases m) (auto simp: ALLOWED_MODELS_def split: if_splits)

lemma loadConfig_model_allowed:
  "loadConfig e = (tr, Value cfg) \<Longrightarrow> model cfg \<in> set ALLOWED_MODELS"
  by (auto simp: loadConfig_def ConfigSchema_parse_def dest: parse_model_allowed
      split: sum.splits)

lemma loadConfig_requests_allowed: "requests_allowed (fst (loadConfig e))"
  by (simp add: loadConfig_def config_error_lines_def requests_allowed_simps split: sum.splits)

lemma chat_action_requests_allowed: "requests_allowed (fst (chat_action e inputs))"
  unfolding chat_action_def
proof (intro and_then_requests_allowed)
  show "requests_allowed (fst (loadConfig e))" by (rule loadConfig_requests_allowed)
next
  fix cfg
  show "requests_allowed (fst (emit [Log [T ''Welcome to Claude Chat! Type /help for commands.'']]))"
    by (simp add: emit_def requests_allowed_simps)
next
  fix cfg u
  assume "snd (loadConfig e) = Value cfg"
  then have "loadConfig e = (fst (loadConfig e), Value cfg)"
    by (cases "loadConfig e") simp
  then have "model cfg \<in> set ALLOWED_MODELS"
    by (rule loadConfig_model_allowed)
  then show "requests_allowed (fst (case alloc heap0 [] of
      (hp, r) \<Rightarrow> chat_loop hp \<lparr>config = cfg, history = r\<rparr> inputs))"
    by (simp add: alloc_def chat_loop_requests_allowed)
qed

end
